theory Spec2Isabelle
  imports Complex_Main
begin

section \<open>Python strings and numbers\<close>

text \<open>
  The answer analyzer of \<^verbatim>\<open>answer_analyzer.py\<close> works on Python strings, integers and
  floats. Strings are modelled as \<^typ>\<open>string\<close>, each \<^typ>\<open>char\<close> standing for the Unicode
  code point of the same number (so the texts covered are those of Latin-1), integers as
  \<^typ>\<open>int\<close>, and a float as the rational number it denotes. The relevance analyzer,
  whose score is the last digit of a rounded quotient, rounds each of its operations to the
  nearest double, as the floating-point unit does (see the next section); the other
  analyzers and the aggregator compute exactly, so that rounding errors of the binary
  representation are not modelled there.
\<close>

definition py_isspace :: "char \<Rightarrow> bool" where
  \<comment> \<open>the characters removed by \<^verbatim>\<open>str.strip()\<close> and matched by \<^verbatim>\<open>\s\<close>\<close>
  "py_isspace c = (let n = (of_char c :: nat) in
     (9 \<le> n \<and> n \<le> 13) \<or> (28 \<le> n \<and> n \<le> 32) \<or> n = 133 \<or> n = 160)"

definition py_isalpha_char :: "char \<Rightarrow> bool" where
  "py_isalpha_char c = (let n = (of_char c :: nat) in
     (65 \<le> n \<and> n \<le> 90) \<or> (97 \<le> n \<and> n \<le> 122) \<or> n = 170 \<or> n = 181 \<or> n = 186 \<or>
     (192 \<le> n \<and> n \<le> 214) \<or> (216 \<le> n \<and> n \<le> 246) \<or> (248 \<le> n \<and> n \<le> 255))"

definition py_isdecimal :: "char \<Rightarrow> bool" where
  \<comment> \<open>the characters matched by \<^verbatim>\<open>\d\<close>\<close>
  "py_isdecimal c = (let n = (of_char c :: nat) in 48 \<le> n \<and> n \<le> 57)"

definition is_word_char :: "char \<Rightarrow> bool" where
  \<comment> \<open>the characters matched by \<^verbatim>\<open>\w\<close>: alphanumeric or underscore\<close>
  "is_word_char c = (let n = (of_char c :: nat) in
     py_isalpha_char c \<or> py_isdecimal c \<or> n = 95 \<or>
     n = 178 \<or> n = 179 \<or> n = 185 \<or> (188 \<le> n \<and> n \<le> 190))"

definition isalpha :: "string \<Rightarrow> bool" where
  \<comment> \<open>\<^verbatim>\<open>str.isalpha()\<close>: at least one character, all of them letters\<close>
  "isalpha s = (s \<noteq> [] \<and> list_all py_isalpha_char s)"

fun set_bit5 :: "char \<Rightarrow> char" where
  "set_bit5 (Char b0 b1 b2 b3 b4 b5 b6 b7) = Char b0 b1 b2 b3 b4 True b6 b7"

definition lower_char :: "char \<Rightarrow> char" where
  \<comment> \<open>an upper-case letter and its lower-case form differ by 32, which is bit 5\<close>
  "lower_char c = (let n = (of_char c :: nat) in
     if (65 \<le> n \<and> n \<le> 90) \<or> (192 \<le> n \<and> n \<le> 222 \<and> n \<noteq> 215) then set_bit5 c else c)"

definition lower :: "string \<Rightarrow> string" where
  "lower s = map lower_char s"

definition strip :: "string \<Rightarrow> string" where
  "strip s = rev (dropWhile py_isspace (rev (dropWhile py_isspace s)))"

definition startswith :: "string \<Rightarrow> string \<Rightarrow> bool" where
  "startswith s sub = (take (length sub) s = sub)"

primrec contains :: "string \<Rightarrow> string \<Rightarrow> bool" where
  \<comment> \<open>\<^verbatim>\<open>sub in s\<close>\<close>
  "contains [] sub = (sub = [])"
| "contains (c # cs) sub = (startswith (c # cs) sub \<or> contains cs sub)"

function count_str :: "string \<Rightarrow> string \<Rightarrow> nat" where
  \<comment> \<open>\<^verbatim>\<open>s.count(sub)\<close>: occurrences that do not overlap, found from the left\<close>
  "count_str s sub =
     (if sub = [] then length s + 1
      else if s = [] then 0
      else if startswith s sub then 1 + count_str (drop (length sub) s) sub
      else count_str (tl s) sub)"
  by pat_completeness auto
termination
  by (relation "measure (\<lambda>(s, sub). length s)") auto

declare count_str.simps [simp del]

definition py_round :: "nat \<Rightarrow> rat \<Rightarrow> rat" where
  \<comment> \<open>\<^verbatim>\<open>round(x, n)\<close>: to n decimals, a tie going to the even neighbour\<close>
  "py_round n x =
     (let y = x * 10 ^ n; f = \<lfloor>y\<rfloor>; d = y - of_int f
      in of_int (if d < 1 / 2 then f
                 else if 1 / 2 < d then f + 1
                 else if even f then f else f + 1) / 10 ^ n)"

subsection \<open>Doubles\<close>

text \<open>
  A double is a rational \<open>m * 2 ^ e\<close> whose significand \<open>m\<close> has at most 53 bits. An operation
  on floats returns the double nearest to its exact result, a tie going to the even
  significand: with \<open>2 ^ e \<le> \<bar>x\<bar> < 2 ^ (e + 1)\<close> the doubles around \<open>x\<close> are the multiples of
  \<open>2 ^ (e - 52)\<close>. Overflow and subnormal numbers are left out: a quotient of two word
  counts and its products by 100 and by 1.5 stay in the normal range. The float that
  \<^verbatim>\<open>round(x, 1)\<close> returns is the double nearest to a decimal with one digit; it is
  represented by that decimal.
\<close>

function bit_length :: "int \<Rightarrow> nat" where
  \<comment> \<open>the number of binary digits of a positive integer\<close>
  "bit_length n = (if n \<le> 0 then 0 else Suc (bit_length (n div 2)))"
  by pat_completeness auto
termination
  by (relation "measure nat") auto

declare bit_length.simps [simp del]

definition exponent2 :: "rat \<Rightarrow> int" where
  \<comment> \<open>for positive \<open>x\<close>, the \<open>e\<close> with \<open>2 ^ e \<le> x < 2 ^ (e + 1)\<close>\<close>
  "exponent2 x =
     (if 1 \<le> x then int (bit_length \<lfloor>x\<rfloor>) - 1
      else - int (bit_length (\<lceil>1 / x\<rceil> - 1)))"

definition two_pow :: "int \<Rightarrow> rat" where
  "two_pow i = (if 0 \<le> i then 2 ^ nat i else 1 / 2 ^ nat (- i))"

definition round_half_even :: "rat \<Rightarrow> int" where
  "round_half_even y =
     (let f = \<lfloor>y\<rfloor>; d = y - of_int f
      in if d < 1 / 2 then f else if 1 / 2 < d then f + 1 else if even f then f else f + 1)"

definition fl :: "rat \<Rightarrow> rat" where
  \<comment> \<open>the double nearest to \<open>x\<close>\<close>
  "fl x =
     (if x = 0 then 0
      else let a = \<bar>x\<bar>; ulp = two_pow (exponent2 a - 52)
           in sgn x * of_int (round_half_even (a / ulp)) * ulp)"

definition fdiv :: "rat \<Rightarrow> rat \<Rightarrow> rat" where
  \<comment> \<open>\<^verbatim>\<open>a / b\<close> on numbers, for \<open>b\<close> other than 0\<close>
  "fdiv a b = fl (a / b)"

definition fmul :: "rat \<Rightarrow> rat \<Rightarrow> rat" where
  \<comment> \<open>\<^verbatim>\<open>a * b\<close> where one factor is a float\<close>
  "fmul a b = fl (a * b)"

subsection \<open>Integers as text, exceptions, dictionaries\<close>

fun str_nat :: "nat \<Rightarrow> string" where
  "str_nat n = (if n < 10 then [char_of (48 + n)]
                else str_nat (n div 10) @ [char_of (48 + n mod 10)])"

declare str_nat.simps [simp del]

definition str_int :: "int \<Rightarrow> string" where
  \<comment> \<open>\<^verbatim>\<open>str(i)\<close>, as an f-string formats an integer\<close>
  "str_int i = (if i < 0 then CHR ''-'' # str_nat (nat (- i)) else str_nat (nat i))"

datatype py_error = KeyError string | TypeError

definition err_bind :: "py_error + 'a \<Rightarrow> ('a \<Rightarrow> py_error + 'b) \<Rightarrow> py_error + 'b" where
  \<comment> \<open>sequencing: an exception raised by the first step ends the computation\<close>
  "err_bind m f = (case m of Inl e \<Rightarrow> Inl e | Inr x \<Rightarrow> f x)"

definition subscript :: "string \<Rightarrow> 'a option \<Rightarrow> py_error + 'a" where
  \<comment> \<open>\<^verbatim>\<open>d[key]\<close> on a dictionary whose entry for the key is the option\<close>
  "subscript key v = (case v of None \<Rightarrow> Inl (KeyError key) | Some x \<Rightarrow> Inr x)"

definition get_or :: "'a option \<Rightarrow> 'a \<Rightarrow> 'a" where
  \<comment> \<open>\<^verbatim>\<open>d.get(key, default)\<close>\<close>
  "get_or v d = (case v of None \<Rightarrow> d | Some x \<Rightarrow> x)"

section \<open>External collaborators\<close>

text \<open>
  The analyzer calls the NLTK tokenizers and stop-word list, the VADER sentiment analyzer
  and TextBlob. They are libraries outside the repository and are taken as parameters:
  every function that uses \<^verbatim>\<open>self\<close> or a tokenizer receives a record of them.
\<close>

record vader_scores =
  pos :: rat
  neg :: rat
  neu :: rat
  compound :: rat

record nlp =
  word_tokenize :: "string \<Rightarrow> string list"
  sent_tokenize :: "string \<Rightarrow> string list"
  stop_words :: "string set"
  polarity_scores :: "string \<Rightarrow> vader_scores"
  blob_polarity :: "string \<Rightarrow> rat"
  blob_subjectivity :: "string \<Rightarrow> rat"

definition filler_words :: "string list" where
  "filler_words =
     [''um'', ''uh'', ''like'', ''you know'', ''sort of'', ''kind of'',
      ''i mean'', ''actually'', ''basically'', ''literally'', ''seriously'',
      ''honestly'', ''right'', ''okay'', ''so'', ''well'', ''yeah'']"

section \<open>The analysis bundle\<close>

text \<open>
  The analyzer returns nested dictionaries with fixed keys. Each is a record whose field is
  \<open>None\<close> when the dictionary has no entry for the key: the placeholder bundle of an
  empty answer has only the score entries. The keys \<^verbatim>\<open>speech_features\<close> and
  \<^verbatim>\<open>facial_expressions\<close> of the bundle are read with \<^verbatim>\<open>in\<close> and \<^verbatim>\<open>get\<close>, so they are
  optional too. The facial dictionary's \<^verbatim>\<open>confidence_level\<close> is the field
  \<open>facial_confidence_level\<close>, the sentiment dictionary having an entry of the same name.
\<close>

record text_metrics_dict =
  word_count :: "int option"
  sentence_count :: "int option"
  content_word_count :: "int option"
  avg_word_length :: "rat option"
  avg_sentence_length :: "rat option"
  unique_words :: "int option"
  vocabulary_richness :: "rat option"

record content_quality_dict =
  quality_score :: "rat option"
  has_specific_examples :: "bool option"
  has_quantifiable_results :: "bool option"
  has_numbers :: "bool option"
  uses_star_method :: "bool option"

record sentiment_dict =
  polarity :: "rat option"
  subjectivity :: "rat option"
  positive_score :: "rat option"
  negative_score :: "rat option"
  neutral_score :: "rat option"
  confidence_level :: "rat option"
  enthusiasm_score :: "rat option"

record relevance_dict =
  relevance_score :: "rat option"
  keyword_overlap :: "int option"
  directly_addresses_question :: "bool option"

record clarity_dict =
  clarity_score :: "rat option"
  has_structure :: "bool option"
  transition_words :: "int option"

record professionalism_dict =
  professionalism_score :: "rat option"
  professional_language :: "int option"
  casual_language :: "int option"

record speech_features_dict =
  filler_word_count :: "int option"
  speaking_rate :: "rat option"
  repetitions :: "int option"
  stuttering_instances :: "int option"
  pause_indicators :: "int option"
  fluency_score :: "rat option"
  speaking_pace :: "string option"

datatype pyval = Num rat | Str string

record facial_expressions_dict =
  facial_confidence_level :: "rat option"
  nervousness :: "string option"
  eye_contact :: "string option"
  expressions :: "string option"
  eye_contact_percentage :: "rat option"
  dominant_emotion :: "pyval option"
  engagement_score :: "rat option"

record analysis =
  text_metrics :: text_metrics_dict
  content_quality :: content_quality_dict
  sentiment :: sentiment_dict
  relevance :: relevance_dict
  clarity :: clarity_dict
  professionalism :: professionalism_dict
  speech_features :: "speech_features_dict option"
  facial_expressions :: "facial_expressions_dict option"
  overall_score :: rat

text \<open>
  The video signal is a dictionary supplied by the caller, read with \<^verbatim>\<open>get\<close> and a default
  for each key; its values are numbers or strings.
\<close>

type_synonym video_data = "(string \<times> pyval) list"

definition as_num :: "pyval \<Rightarrow> py_error + rat" where
  \<comment> \<open>comparing or rounding a value that is not a number raises\<close>
  "as_num v = (case v of Num x \<Rightarrow> Inr x | Str s \<Rightarrow> Inl TypeError)"

section \<open>Speech features\<close>

text \<open>
  The stutter pattern is the regular expression \<^verbatim>\<open>\b(\w+)\s+\1\b\<close>. A match starts at a
  word boundary; the group is followed by white space, so it is the whole run of word
  characters; the white space is followed by the group's first character, so it is the
  whole run of white space; then comes the group again, up to a word boundary. Each choice
  being forced, no backtracking is needed. \<^verbatim>\<open>findall\<close> looks for the next match where the
  last one ended, and one character further where there is none.
\<close>

definition word_boundary :: "char option \<Rightarrow> string \<Rightarrow> bool" where
  \<comment> \<open>\<^verbatim>\<open>\b\<close> between the character before, if any, and the rest of the text\<close>
  "word_boundary prev s =
     ((case prev of None \<Rightarrow> False | Some c \<Rightarrow> is_word_char c) \<noteq>
      (case s of [] \<Rightarrow> False | c # cs \<Rightarrow> is_word_char c))"

definition stutter_match :: "char option \<Rightarrow> string \<Rightarrow> nat option" where
  \<comment> \<open>the length of the match of the stutter pattern at the start of \<open>s\<close>\<close>
  "stutter_match prev s =
     (let w = takeWhile is_word_char s;
          r1 = dropWhile is_word_char s;
          sp = takeWhile py_isspace r1;
          r2 = dropWhile py_isspace r1
      in if word_boundary prev s \<and> w \<noteq> [] \<and> sp \<noteq> [] \<and> startswith r2 w \<and>
            word_boundary (Some (last w)) (drop (length w) r2)
         then Some (length w + length sp + length w) else None)"

function findall_stutter :: "char option \<Rightarrow> string \<Rightarrow> nat" where
  \<comment> \<open>\<^verbatim>\<open>len(re.findall(stutter_pattern, s))\<close>, \<open>prev\<close> being the character before \<open>s\<close>\<close>
  "findall_stutter prev [] = 0"
| "findall_stutter prev (c # cs) =
     (case stutter_match prev (c # cs) of
        Some n \<Rightarrow> 1 + findall_stutter (Some ((c # cs) ! (n - 1))) (drop n (c # cs))
      | None \<Rightarrow> findall_stutter (Some c) cs)"
  by pat_completeness auto
termination
  by (relation "measure (\<lambda>(prev, s). length s)")
     (auto simp: stutter_match_def Let_def split: if_splits)

fun dict_set :: "(string \<times> int) list \<Rightarrow> string \<Rightarrow> int \<Rightarrow> (string \<times> int) list" where
  \<comment> \<open>\<^verbatim>\<open>d[key] = v\<close>, the dictionary keeping its keys in insertion order\<close>
  "dict_set [] key v = [(key, v)]"
| "dict_set ((k, x) # d) key v = (if k = key then (k, v) # d else (k, x) # dict_set d key v)"

definition get_speaking_pace :: "rat \<Rightarrow> string" where
  "get_speaking_pace rate =
     (if rate = 0 then ''unknown''
      else if rate < 100 then ''too slow''
      else if rate < 130 then ''slow''
      else if rate < 160 then ''optimal''
      else if rate < 190 then ''fast''
      else ''too fast'')"

definition analyze_speech_features :: "nlp \<Rightarrow> string \<Rightarrow> rat \<Rightarrow> speech_features_dict" where
  "analyze_speech_features self text duration =
     (let words = word_tokenize self (lower text);
          text_lower = lower text;
          filler_count = (\<Sum>filler \<leftarrow> filler_words. int (count_str text_lower filler));
          speaking_rate = (if duration > 0 then (of_nat (length words) / duration) * 60 else 0);
          word_freq = foldl (\<lambda>word_freq word.
                        if isalpha word \<and> length word > 3
                        then dict_set word_freq word (get_or (map_of word_freq word) 0 + 1)
                        else word_freq) [] words;
          repetitions = int (length (filter (\<lambda>count. count > 2) (map snd word_freq)));
          pause_indicators = int (count_str text ''...'') + int (count_str text ''..'');
          stutters = int (findall_stutter None text_lower);
          fluency_score = 100;
          fluency_score = fluency_score - min (filler_count * 5) 30;
          fluency_score = fluency_score - min (stutters * 10) 20;
          fluency_score = fluency_score - min (pause_indicators * 5) 15;
          fluency_score =
            (if speaking_rate > 0
             then if speaking_rate < 100 then fluency_score - 10
                  else if speaking_rate > 200 then fluency_score - 10
                  else fluency_score
             else fluency_score);
          fluency_score = max 0 (min 100 fluency_score)
      in \<lparr>filler_word_count = Some filler_count,
          speaking_rate = Some (py_round 1 speaking_rate),
          repetitions = Some repetitions,
          stuttering_instances = Some stutters,
          pause_indicators = Some pause_indicators,
          fluency_score = Some (of_int fluency_score),
          speaking_pace = Some (get_speaking_pace speaking_rate)\<rparr>)"

section \<open>Facial expressions\<close>

definition facial_defaults :: facial_expressions_dict where
  \<comment> \<open>the dictionary literal returned when there is no video data\<close>
  "facial_defaults =
     \<lparr>facial_confidence_level = Some 70,
      nervousness = Some ''moderate'',
      eye_contact = Some ''good'',
      expressions = Some ''neutral'',
      eye_contact_percentage = None,
      dominant_emotion = None,
      engagement_score = None\<rparr>"

definition truthy :: "video_data option \<Rightarrow> bool" where
  \<comment> \<open>\<^verbatim>\<open>if video_data\<close>: neither \<^verbatim>\<open>None\<close> nor an empty dictionary\<close>
  "truthy video_data = (case video_data of None \<Rightarrow> False | Some d \<Rightarrow> d \<noteq> [])"

definition analyze_facial_expressions :: "video_data option \<Rightarrow> py_error + facial_expressions_dict" where
  "analyze_facial_expressions video_data =
     (case video_data of
        None \<Rightarrow> Inr facial_defaults
      | Some d \<Rightarrow>
        if \<not> truthy video_data then Inr facial_defaults
        else
        let eye_contact_pct = get_or (map_of d ''eye_contact_percentage'') (Num 60);
            dominant_emotion = get_or (map_of d ''dominant_emotion'') (Str ''neutral'');
            engagement = get_or (map_of d ''engagement_score'') (Num 70)
        in err_bind (as_num engagement) (\<lambda>engagement.
           let nervousness = (if engagement < 50 then ''high''
                              else if engagement < 70 then ''moderate'' else ''low'');
               confidence = engagement;
               confidence =
                 (if dominant_emotion \<in> set [Str ''happy'', Str ''focused''] then confidence + 10
                  else if dominant_emotion \<in> set [Str ''sad'', Str ''worried''] then confidence - 10
                  else confidence);
               confidence = max 0 (min 100 confidence)
           in err_bind (as_num eye_contact_pct) (\<lambda>eye_contact_pct.
              let eye_contact_quality =
                    (if eye_contact_pct > 70 then ''excellent''
                     else if eye_contact_pct > 50 then ''good''
                     else ''needs improvement'')
              in Inr \<lparr>facial_confidence_level = Some (py_round 1 confidence),
                      nervousness = Some nervousness,
                      eye_contact = Some eye_contact_quality,
                      expressions = None,
                      eye_contact_percentage = Some (py_round 1 eye_contact_pct),
                      dominant_emotion = Some dominant_emotion,
                      engagement_score = Some (py_round 1 engagement)\<rparr>)))"

section \<open>Text analyzers\<close>

definition analyze_text_metrics :: "nlp \<Rightarrow> string \<Rightarrow> text_metrics_dict" where
  "analyze_text_metrics self text =
     (let words = word_tokenize self (lower text);
          sentences = sent_tokenize self text;
          content_words = filter (\<lambda>w. isalpha w \<and> w \<notin> stop_words self) words;
          avg_word_length =
            (if content_words \<noteq> []
             then of_nat (\<Sum>w \<leftarrow> content_words. length w) / of_nat (length content_words)
             else 0);
          avg_sentence_length =
            (if sentences \<noteq> [] then of_nat (length words) / of_nat (length sentences) else 0)
      in \<lparr>word_count = Some (int (length words)),
          sentence_count = Some (int (length sentences)),
          content_word_count = Some (int (length content_words)),
          avg_word_length = Some (py_round 2 avg_word_length),
          avg_sentence_length = Some (py_round 2 avg_sentence_length),
          unique_words = Some (int (card (set content_words))),
          vocabulary_richness =
            Some (if content_words \<noteq> []
                  then py_round 3 (of_nat (card (set content_words)) / of_nat (length content_words))
                  else 0)\<rparr>)"

definition analyze_content_quality :: "string \<Rightarrow> string \<Rightarrow> content_quality_dict" where
  "analyze_content_quality text question =
     (let text_lower = lower text;
          has_numbers = list_ex py_isdecimal text;
          has_examples = list_ex (contains text_lower)
            [''for example'', ''for instance'', ''such as'', ''like when'', ''specifically''];
          has_quantification = list_ex (contains text_lower)
            [''increased'', ''decreased'', ''improved'', ''reduced'', ''achieved'',
             ''percent'', ''%'', ''times'', ''doubled'', ''tripled''];
          has_situation = list_ex (contains text_lower) [''situation'', ''context'', ''background''];
          has_task = list_ex (contains text_lower) [''task'', ''goal'', ''objective'', ''challenge''];
          has_action = list_ex (contains text_lower) [''action'', ''did'', ''implemented'', ''developed''];
          has_result = list_ex (contains text_lower) [''result'', ''outcome'', ''impact'', ''achievement''];
          quality_score = (50 :: int);
          quality_score = (if has_numbers then quality_score + 10 else quality_score);
          quality_score = (if has_examples then quality_score + 15 else quality_score);
          quality_score = (if has_quantification then quality_score + 15 else quality_score);
          quality_score = (if has_situation then quality_score + 5 else quality_score);
          quality_score = (if has_task then quality_score + 5 else quality_score);
          quality_score = (if has_action then quality_score + 5 else quality_score);
          quality_score = (if has_result then quality_score + 10 else quality_score);
          quality_score = min 100 quality_score
      in \<lparr>quality_score = Some (of_int quality_score),
          has_specific_examples = Some has_examples,
          has_quantifiable_results = Some has_quantification,
          has_numbers = Some has_numbers,
          uses_star_method = Some (has_situation \<and> has_task \<and> has_action \<and> has_result)\<rparr>)"

definition analyze_sentiment :: "nlp \<Rightarrow> string \<Rightarrow> sentiment_dict" where
  "analyze_sentiment self text =
     (let scores = polarity_scores self text;
          confidence = 50 + (pos scores * 50) - (neg scores * 30);
          confidence = max 0 (min 100 confidence)
      in \<lparr>polarity = Some (py_round 3 (blob_polarity self text)),
          subjectivity = Some (py_round 3 (blob_subjectivity self text)),
          positive_score = Some (py_round 3 (pos scores)),
          negative_score = Some (py_round 3 (neg scores)),
          neutral_score = Some (py_round 3 (neu scores)),
          confidence_level = Some (py_round 1 confidence),
          enthusiasm_score = Some (py_round 1 (pos scores * 100))\<rparr>)"

definition analyze_relevance :: "nlp \<Rightarrow> string \<Rightarrow> string \<Rightarrow> relevance_dict" where
  "analyze_relevance self answer question =
     (let answer_words = set (word_tokenize self (lower answer));
          question_words = set (word_tokenize self (lower question));
          answer_words = {w \<in> answer_words. isalpha w \<and> w \<notin> stop_words self};
          question_words = {w \<in> question_words. isalpha w \<and> w \<notin> stop_words self};
          overlap = answer_words \<inter> question_words;
          relevance =
            (if question_words \<noteq> {}
             then fmul (fdiv (of_nat (card overlap)) (of_nat (card question_words))) 100
             else 50);
          relevance = min 100 (fmul relevance (3 / 2))
      in \<lparr>relevance_score = Some (py_round 1 relevance),
          keyword_overlap = Some (int (card overlap)),
          directly_addresses_question =
            Some (of_nat (card overlap) \<ge> of_nat (card question_words) * (3 / 10 :: rat))\<rparr>)"

definition transitions :: "string list" where
  "transitions =
     [''first'', ''second'', ''then'', ''next'', ''finally'', ''additionally'',
      ''moreover'', ''however'', ''therefore'', ''consequently'']"

definition analyze_clarity :: "nlp \<Rightarrow> string \<Rightarrow> clarity_dict" where
  "analyze_clarity self text =
     (let text_lower = lower text;
          transition_count = int (length (filter (contains text_lower) transitions));
          clarity_score = 60;
          clarity_score = clarity_score + min (transition_count * 8) 24;
          sentences = sent_tokenize self text;
          avg_sentence_length =
            (if sentences \<noteq> []
             then of_nat (length (word_tokenize self text)) / of_nat (length sentences)
             else (0 :: rat));
          clarity_score =
            (if 10 < avg_sentence_length \<and> avg_sentence_length < 25 then clarity_score + 16
             else if avg_sentence_length < 5 then clarity_score - 10
             else clarity_score);
          clarity_score = max 0 (min 100 clarity_score)
      in \<lparr>clarity_score = Some (of_int clarity_score),
          has_structure = Some (transition_count > 0),
          transition_words = Some transition_count\<rparr>)"

definition professional_phrases :: "string list" where
  "professional_phrases =
     [''experience'', ''responsible for'', ''achieved'', ''developed'',
      ''implemented'', ''collaborated'', ''managed'', ''led'', ''initiated'']"

definition casual_words :: "string list" where
  "casual_words = [''gonna'', ''wanna'', ''kinda'', ''sorta'', ''yeah'', ''stuff'', ''things'', ''like'']"

definition analyze_professionalism :: "string \<Rightarrow> professionalism_dict" where
  "analyze_professionalism text =
     (let text_lower = lower text;
          professional_count = int (length (filter (contains text_lower) professional_phrases));
          casual_count = int (length (filter (contains text_lower) casual_words));
          prof_score = 70;
          prof_score = prof_score + professional_count * 5;
          prof_score = prof_score - casual_count * 10;
          prof_score = max 0 (min 100 prof_score)
      in \<lparr>professionalism_score = Some (of_int prof_score),
          professional_language = Some professional_count,
          casual_language = Some casual_count\<rparr>)"

section \<open>Overall score\<close>

text \<open>
  The products and their sum are computed exactly. The float that the built-in \<^verbatim>\<open>sum\<close>
  returns depends on the interpreter (a compensated summation since CPython 3.12, a plain
  one before), so the last digit of the overall score is not determined by the source alone.
\<close>

definition weights :: "(string \<times> rat) list" where
  "weights =
     [(''content_quality'', 25 / 100),
      (''relevance'', 20 / 100),
      (''clarity'', 15 / 100),
      (''sentiment'', 10 / 100),
      (''professionalism'', 10 / 100),
      (''speech'', 15 / 100),
      (''facial'', 5 / 100)]"

fun weighted_sum :: "(string \<times> rat) list \<Rightarrow> (string \<times> rat) list \<Rightarrow> rat \<Rightarrow> string list \<Rightarrow> py_error + rat" where
  \<comment> \<open>\<^verbatim>\<open>sum(scores[key] * weights[key] for key in keys)\<close>, from the running total\<close>
  "weighted_sum scores ws acc [] = Inr acc"
| "weighted_sum scores ws acc (key # keys) =
     err_bind (subscript key (map_of scores key)) (\<lambda>s.
     err_bind (subscript key (map_of ws key)) (\<lambda>w.
     weighted_sum scores ws (acc + s * w) keys))"

definition calculate_overall_score :: "analysis \<Rightarrow> py_error + rat" where
  "calculate_overall_score analysis =
     err_bind (subscript ''quality_score'' (quality_score (content_quality analysis))) (\<lambda>content_quality_s.
     err_bind (subscript ''relevance_score'' (relevance_score (relevance analysis))) (\<lambda>relevance_s.
     err_bind (subscript ''clarity_score'' (clarity_score (clarity analysis))) (\<lambda>clarity_s.
     err_bind (subscript ''confidence_level'' (confidence_level (sentiment analysis))) (\<lambda>sentiment_s.
     err_bind (subscript ''professionalism_score''
                 (professionalism_score (professionalism analysis))) (\<lambda>professionalism_s.
     let speech_s = (case speech_features analysis of
                       None \<Rightarrow> 70 | Some d \<Rightarrow> get_or (fluency_score d) 70);
         facial_s = (case facial_expressions analysis of
                       None \<Rightarrow> 70 | Some d \<Rightarrow> get_or (facial_confidence_level d) 70);
         scores = [(''content_quality'', content_quality_s),
                   (''relevance'', relevance_s),
                   (''clarity'', clarity_s),
                   (''sentiment'', sentiment_s),
                   (''professionalism'', professionalism_s),
                   (''speech'', speech_s),
                   (''facial'', facial_s)]
     in err_bind (weighted_sum scores weights 0 (map fst weights)) (\<lambda>overall.
        Inr (py_round 1 overall)))))))"

section \<open>Feedback\<close>

definition content_feedback :: "analysis \<Rightarrow> py_error + string list" where
  "content_feedback analysis =
     (let content = content_quality analysis;
          feedback = [];
          feedback = (if has_specific_examples content \<noteq> Some True
                      then feedback @ [''Add specific examples from your experience to illustrate your points'']
                      else feedback);
          feedback = (if has_quantifiable_results content \<noteq> Some True
                      then feedback @ [''Include measurable results (percentages, numbers, metrics) to demonstrate impact'']
                      else feedback)
      in err_bind (subscript ''quality_score'' (quality_score content)) (\<lambda>q.
         Inr (if q < 60
              then feedback @ [''Provide more detailed responses with concrete details and outcomes'']
              else feedback)))"

definition speech_feedback :: "analysis \<Rightarrow> py_error + string list" where
  "speech_feedback analysis =
     (case speech_features analysis of
        None \<Rightarrow> Inr []
      | Some speech \<Rightarrow>
          err_bind (subscript ''filler_word_count'' (filler_word_count speech)) (\<lambda>fillers.
          let feedback = (if fillers > 3
                          then [''Reduce filler words (found '' @ str_int fillers @
                                '' instances of 'um', 'uh', 'like')'']
                          else [])
          in err_bind (subscript ''stuttering_instances'' (stuttering_instances speech)) (\<lambda>stutters.
             let feedback = (if stutters > 0
                             then feedback @ [''Practice your answers to reduce stuttering and improve fluency'']
                             else feedback)
             in err_bind (subscript ''speaking_pace'' (speaking_pace speech)) (\<lambda>pace.
                Inr (if pace \<in> set [''too slow'', ''too fast'']
                     then feedback @ [''Adjust your speaking pace (currently '' @ pace @
                                      '') to 130-160 words/minute'']
                     else feedback)))))"

definition facial_feedback :: "analysis \<Rightarrow> string list" where
  "facial_feedback analysis =
     (case facial_expressions analysis of
        None \<Rightarrow> []
      | Some facial \<Rightarrow>
          (if get_or (eye_contact_percentage facial) 100 < 50
           then [''Maintain better eye contact with the camera (look directly at it)'']
           else []) @
          (if nervousness facial = Some ''high''
           then [''Try to relax and appear more confident - take deep breaths before answering'']
           else []) @
          (if get_or (engagement_score facial) 100 < 60
           then [''Show more enthusiasm and engagement through your facial expressions'']
           else []))"

definition score_feedback :: "analysis \<Rightarrow> py_error + string list" where
  \<comment> \<open>relevance, clarity, professionalism and length\<close>
  "score_feedback analysis =
     err_bind (subscript ''relevance_score'' (relevance_score (relevance analysis))) (\<lambda>r.
     let feedback = (if r < 60
                     then [''Ensure your answer directly addresses what was asked in the question'']
                     else [])
     in err_bind (subscript ''clarity_score'' (clarity_score (clarity analysis))) (\<lambda>c.
        let feedback = (if c < 60
                        then feedback @ [''Structure your answer better using transitions (first, then, finally)'']
                        else feedback)
        in err_bind (subscript ''professionalism_score''
                       (professionalism_score (professionalism analysis))) (\<lambda>p.
           let feedback = (if p < 60
                           then feedback @ [''Use more professional language and avoid casual expressions'']
                           else feedback)
           in err_bind (subscript ''word_count'' (word_count (text_metrics analysis))) (\<lambda>word_count.
              Inr (if word_count < 30
                   then feedback @ [''Provide longer, more detailed answers (aim for 50-150 words)'']
                   else if word_count > 200
                   then feedback @ [''Keep answers more concise and focused on key points'']
                   else feedback)))))"

definition get_feedback :: "analysis \<Rightarrow> py_error + string list" where
  "get_feedback analysis =
     err_bind (content_feedback analysis) (\<lambda>content.
     err_bind (speech_feedback analysis) (\<lambda>speech.
     err_bind (score_feedback analysis) (\<lambda>scores.
     let feedback = content @ speech @ facial_feedback analysis @ scores;
         feedback = (if feedback = [] then [''Excellent answer! Keep up the great work!'']
                     else feedback)
     in Inr (take 5 feedback))))"

section \<open>The entry point\<close>

definition get_empty_analysis :: analysis where
  "get_empty_analysis =
     \<lparr>text_metrics = \<lparr>word_count = Some 0, sentence_count = None, content_word_count = None,
                       avg_word_length = None, avg_sentence_length = None, unique_words = None,
                       vocabulary_richness = None\<rparr>,
      content_quality = \<lparr>quality_score = Some 0, has_specific_examples = None,
                          has_quantifiable_results = None, has_numbers = None,
                          uses_star_method = None\<rparr>,
      sentiment = \<lparr>polarity = None, subjectivity = None, positive_score = None,
                    negative_score = None, neutral_score = None, confidence_level = Some 0,
                    enthusiasm_score = None\<rparr>,
      relevance = \<lparr>relevance_score = Some 0, keyword_overlap = None,
                    directly_addresses_question = None\<rparr>,
      clarity = \<lparr>clarity_score = Some 0, has_structure = None, transition_words = None\<rparr>,
      professionalism = \<lparr>professionalism_score = Some 0, professional_language = None,
                          casual_language = None\<rparr>,
      speech_features = Some \<lparr>filler_word_count = None, speaking_rate = None, repetitions = None,
                               stuttering_instances = None, pause_indicators = None,
                               fluency_score = Some 0, speaking_pace = None\<rparr>,
      facial_expressions = Some \<lparr>facial_confidence_level = Some 0, nervousness = None,
                                  eye_contact = None, expressions = None,
                                  eye_contact_percentage = None, dominant_emotion = None,
                                  engagement_score = None\<rparr>,
      overall_score = 0\<rparr>"

definition empty_dict :: facial_expressions_dict where
  \<comment> \<open>the literal \<^verbatim>\<open>{}\<close> stored when no video data is given\<close>
  "empty_dict =
     \<lparr>facial_confidence_level = None, nervousness = None, eye_contact = None,
      expressions = None, eye_contact_percentage = None, dominant_emotion = None,
      engagement_score = None\<rparr>"

definition analyze_answer :: "nlp \<Rightarrow> string \<Rightarrow> string \<Rightarrow> video_data option \<Rightarrow> rat \<Rightarrow> py_error + analysis" where
  "analyze_answer self answer question video_data audio_duration =
     (if answer = [] \<or> strip answer = [] then Inr get_empty_analysis
      else
        let speech_analysis = analyze_speech_features self answer audio_duration
        in err_bind (if truthy video_data then analyze_facial_expressions video_data
                     else Inr empty_dict) (\<lambda>facial_analysis.
           let analysis =
                 \<lparr>text_metrics = analyze_text_metrics self answer,
                  content_quality = analyze_content_quality answer question,
                  sentiment = analyze_sentiment self answer,
                  relevance = analyze_relevance self answer question,
                  clarity = analyze_clarity self answer,
                  professionalism = analyze_professionalism answer,
                  speech_features = Some speech_analysis,
                  facial_expressions = Some facial_analysis,
                  overall_score = 0\<rparr>
           in err_bind (calculate_overall_score analysis) (\<lambda>overall.
              Inr (analysis\<lparr>overall_score := overall\<rparr>))))"

section \<open>Reading the designated scores\<close>

definition speech_score :: "analysis \<Rightarrow> rat option" where
  \<comment> \<open>the fluency score of the bundle, if the bundle has one\<close>
  "speech_score a = (case speech_features a of None \<Rightarrow> None | Some d \<Rightarrow> fluency_score d)"

definition facial_score :: "analysis \<Rightarrow> rat option" where
  \<comment> \<open>the facial confidence level of the bundle, if the bundle has one\<close>
  "facial_score a =
     (case facial_expressions a of None \<Rightarrow> None | Some d \<Rightarrow> facial_confidence_level d)"

definition in_range :: "rat option \<Rightarrow> bool" where
  \<comment> \<open>the entry is there and lies in the closed interval from 0 to 100\<close>
  "in_range v = (case v of None \<Rightarrow> False | Some x \<Rightarrow> 0 \<le> x \<and> x \<le> 100)"

definition numeric_entry :: "video_data \<Rightarrow> string \<Rightarrow> bool" where
  \<comment> \<open>the key is absent from the video data or holds a number\<close>
  "numeric_entry d key = (case map_of d key of Some (Str s) \<Rightarrow> False | _ \<Rightarrow> True)"

definition video_ok :: "video_data option \<Rightarrow> bool" where
  \<comment> \<open>the video signal of the data model: its percentage and its score are numbers\<close>
  "video_ok video_data =
     (case video_data of
        None \<Rightarrow> True
      | Some d \<Rightarrow> numeric_entry d ''engagement_score'' \<and> numeric_entry d ''eye_contact_percentage'')"

section \<open>The weighting as specified\<close>

definition spec_overall_score :: "rat \<Rightarrow> rat \<Rightarrow> rat \<Rightarrow> rat \<Rightarrow> rat \<Rightarrow> rat \<Rightarrow> rat \<Rightarrow> rat" where
  \<comment> \<open>the specification's formula: the seven weighted scores, rounded to one decimal\<close>
  "spec_overall_score content rel clar sent prof speech facial =
     py_round 1 (25 / 100 * content + 20 / 100 * rel + 15 / 100 * clar + 10 / 100 * sent +
                 10 / 100 * prof + 15 / 100 * speech + 5 / 100 * facial)"

section \<open>An instance of the collaborators\<close>

text \<open>
  To run the analyzer on examples, the collaborators are instantiated by simple stand-ins:
  a tokenizer that cuts a text into runs of word characters and single punctuation marks,
  a sentence splitter that takes a text without line breaks as one sentence, an excerpt of
  the English stop words, and the sentiment of a neutral text. On the short, neutral,
  one-sentence texts of the examples below they return what the libraries return.
\<close>

fun split_words :: "string \<Rightarrow> string \<Rightarrow> string list" where
  "split_words cur [] = (if cur = [] then [] else [cur])"
| "split_words cur (c # cs) =
     (if is_word_char c then split_words (cur @ [c]) cs
      else (if cur = [] then [] else [cur]) @
           (if py_isspace c then [] else [[c]]) @ split_words [] cs)"

definition sample_nlp :: nlp where
  "sample_nlp =
     \<lparr>word_tokenize = split_words [],
      sent_tokenize = (\<lambda>text. if strip text = [] then [] else [strip text]),
      stop_words = set [''a'', ''an'', ''the'', ''i'', ''my'', ''your'', ''what'', ''is'', ''was'',
                        ''have'', ''with'', ''and'', ''to'', ''of'', ''in'', ''for'', ''so''],
      polarity_scores = (\<lambda>text. \<lparr>pos = 0, neg = 0, neu = 1, compound = 0\<rparr>),
      blob_polarity = (\<lambda>text. 0),
      blob_subjectivity = (\<lambda>text. 0)\<rparr>"

text \<open>
  The bundle of the answer \<^verbatim>\<open>I have experience with Python\<close> to the question
  \<^verbatim>\<open>What is your experience with Python?\<close>, analysed without video and duration.
\<close>

definition sample_bundle :: analysis where
  "sample_bundle =
     \<lparr>text_metrics =
        \<lparr>word_count = Some 5, sentence_count = Some 1,
           content_word_count = Some 2, avg_word_length = Some 8,
           avg_sentence_length = Some 5, unique_words = Some 2,
           vocabulary_richness = Some 1\<rparr>,
        content_quality =
          \<lparr>quality_score = Some 50, has_specific_examples = Some False,
             has_quantifiable_results = Some False,
             has_numbers = Some False, uses_star_method = Some False\<rparr>,
        sentiment =
          \<lparr>polarity = Some 0, subjectivity = Some 0,
             positive_score = Some 0, negative_score = Some 0,
             neutral_score = Some 1, confidence_level = Some 50,
             enthusiasm_score = Some 0\<rparr>,
        relevance =
          \<lparr>relevance_score = Some 100, keyword_overlap = Some 2,
             directly_addresses_question = Some True\<rparr>,
        clarity =
          \<lparr>clarity_score = Some 60, has_structure = Some False,
             transition_words = Some 0\<rparr>,
        professionalism =
          \<lparr>professionalism_score = Some 75, professional_language = Some 1,
             casual_language = Some 0\<rparr>,
        speech_features =
          Some
           \<lparr>filler_word_count = Some 0, speaking_rate = Some 0,
              repetitions = Some 0, stuttering_instances = Some 0,
              pause_indicators = Some 0, fluency_score = Some 100,
              speaking_pace = Some ''unknown''\<rparr>,
        facial_expressions = Some empty_dict,
        overall_score = 145 / 2\<rparr>"

section \<open>The analyzers as specified\<close>

text \<open>
  Names for the parts of the speech analyzer's computation: the filler tally, the pause
  tally, the speaking rate and the score before the rate is taken into account.
\<close>

definition filler_count :: "string \<Rightarrow> int" where
  "filler_count text_lower = (\<Sum>filler \<leftarrow> filler_words. int (count_str text_lower filler))"

definition pause_count :: "string \<Rightarrow> int" where
  "pause_count text = int (count_str text ''...'') + int (count_str text ''..'')"

definition words_per_minute :: "nlp \<Rightarrow> string \<Rightarrow> rat \<Rightarrow> rat" where
  "words_per_minute self text duration =
     (if duration > 0
      then (of_nat (length (word_tokenize self (lower text))) / duration) * 60 else 0)"

definition penalised :: "int \<Rightarrow> int \<Rightarrow> int \<Rightarrow> int" where
  "penalised fc st p = 100 - min (fc * 5) 30 - min (st * 10) 20 - min (p * 5) 15"


definition spec_transition_occurrences :: "string \<Rightarrow> int" where
  "spec_transition_occurrences text = (\<Sum>t \<leftarrow> transitions. int (count_str (lower text) t))"

definition transitions_present :: "string \<Rightarrow> int" where
  "transitions_present text = int (card {t \<in> set transitions. contains (lower text) t})"

definition avg_sentence_words :: "nlp \<Rightarrow> string \<Rightarrow> rat" where
  "avg_sentence_words self text =
     (if sent_tokenize self text \<noteq> []
      then of_nat (length (word_tokenize self text)) / of_nat (length (sent_tokenize self text))
      else 0)"

definition spec_clarity_score :: "int \<Rightarrow> rat \<Rightarrow> int" where
  "spec_clarity_score count avg =
     max 0 (min 100 (60 + min (count * 8) 24 + (if 10 < avg \<and> avg < 25 then 16 else 0)
                     - (if avg < 5 then 10 else 0)))"

definition spec_content_words :: "nlp \<Rightarrow> string \<Rightarrow> string set" where
  "spec_content_words self s =
     {w \<in> set (word_tokenize self (lower s)). isalpha w \<and> w \<notin> stop_words self}"

definition spec_relevance_score :: "nat \<Rightarrow> nat \<Rightarrow> rat" where
  "spec_relevance_score overlap question_count =
     py_round 1 (min 100 (fmul (if question_count \<noteq> 0
                                then fmul (fdiv (of_nat overlap) (of_nat question_count)) 100
                                else 50) (3 / 2)))"

section \<open>Rounding, stripping and the weighted sum\<close>

lemma py_round_le:
  assumes "x \<le> of_int k"
  shows "py_round n x \<le> of_int k"
proof -
  define y where "y = x * 10 ^ n"
  define K where "K = k * 10 ^ n"
  have yK: "y \<le> of_int K"
    using assms by (simp add: y_def K_def mult_right_mono)
  have fK: "\<lfloor>y\<rfloor> \<le> K"
    using floor_mono [OF yK] by simp
  have step: "\<lfloor>y\<rfloor> + 1 \<le> K" if "1 / 2 \<le> y - of_int \<lfloor>y\<rfloor>"
  proof -
    have "of_int \<lfloor>y\<rfloor> < y" using that by linarith
    then have "of_int \<lfloor>y\<rfloor> < (of_int K :: rat)" using yK by linarith
    then have "\<lfloor>y\<rfloor> < K" by simp
    then show ?thesis by simp
  qed
  define r where "r = (if y - of_int \<lfloor>y\<rfloor> < 1 / 2 then \<lfloor>y\<rfloor>
                 else if 1 / 2 < y - of_int \<lfloor>y\<rfloor> then \<lfloor>y\<rfloor> + 1
                 else if even \<lfloor>y\<rfloor> then \<lfloor>y\<rfloor> else \<lfloor>y\<rfloor> + 1)"
  have rK: "r \<le> K"
    unfolding r_def using fK step by (auto simp: not_less)
  have "py_round n x = of_int r / 10 ^ n"
    by (simp add: py_round_def Let_def r_def y_def)
  also have "\<dots> \<le> of_int K / 10 ^ n"
    using rK by (simp add: divide_right_mono)
  also have "\<dots> = of_int k"
    by (simp add: K_def)
  finally show ?thesis .
qed

lemma py_round_ge:
  assumes "of_int k \<le> x"
  shows "of_int k \<le> py_round n x"
proof -
  define y where "y = x * 10 ^ n"
  define K where "K = k * 10 ^ n"
  have yK: "of_int K \<le> y"
    using assms by (simp add: y_def K_def mult_right_mono)
  have fK: "K \<le> \<lfloor>y\<rfloor>"
    using yK by (simp add: le_floor_iff)
  define r where "r = (if y - of_int \<lfloor>y\<rfloor> < 1 / 2 then \<lfloor>y\<rfloor>
                 else if 1 / 2 < y - of_int \<lfloor>y\<rfloor> then \<lfloor>y\<rfloor> + 1
                 else if even \<lfloor>y\<rfloor> then \<lfloor>y\<rfloor> else \<lfloor>y\<rfloor> + 1)"
  have rK: "K \<le> r"
    unfolding r_def using fK by auto
  have "of_int k = of_int K / (10 ^ n :: rat)"
    by (simp add: K_def)
  also have "\<dots> \<le> of_int r / 10 ^ n"
    using rK by (simp add: divide_right_mono)
  also have "\<dots> = py_round n x"
    by (simp add: py_round_def Let_def r_def y_def)
  finally show ?thesis .
qed

lemma py_round_range:
  "0 \<le> x \<Longrightarrow> x \<le> 100 \<Longrightarrow> in_range (Some (py_round n x))"
  using py_round_le [of x 100 n] py_round_ge [of 0 x n] by (simp add: in_range_def)

lemma py_round_of_int: "py_round n (of_int k) = of_int k"
proof -
  have y: "(of_int k :: rat) * 10 ^ n = of_int (k * 10 ^ n)" by simp
  have "py_round n (of_int k) = of_int (k * 10 ^ n) / 10 ^ n"
    unfolding py_round_def Let_def y floor_of_int by simp
  also have "\<dots> = of_int k" by simp
  finally show ?thesis .
qed

lemma strip_blank:
  assumes "list_all py_isspace s"
  shows "strip s = []"
proof -
  have h: "dropWhile py_isspace s = []"
    using assms by (simp add: list_all_iff)
  show ?thesis unfolding strip_def h by simp
qed

lemma weighted_sum_scores:
  "weighted_sum [(''content_quality'', a), (''relevance'', b), (''clarity'', c),
                 (''sentiment'', d), (''professionalism'', e), (''speech'', f), (''facial'', g)]
                weights 0 (map fst weights) =
   Inr (a * (25 / 100) + b * (20 / 100) + c * (15 / 100) + d * (10 / 100) + e * (10 / 100) +
        f * (15 / 100) + g * (5 / 100))"
  by (simp add: weights_def subscript_def err_bind_def)

lemma calculate_overall_score_eq:
  assumes "quality_score (content_quality a) = Some cq"
    and "relevance_score (relevance a) = Some rel"
    and "clarity_score (clarity a) = Some cl"
    and "confidence_level (sentiment a) = Some se"
    and "professionalism_score (professionalism a) = Some pr"
  shows "calculate_overall_score a =
         Inr (spec_overall_score cq rel cl se pr (get_or (speech_score a) 70)
                (get_or (facial_score a) 70))"
proof -
  have sp: "(case speech_features a of None \<Rightarrow> 70 | Some d \<Rightarrow> get_or (fluency_score d) 70) =
            get_or (speech_score a) 70"
    by (simp add: speech_score_def get_or_def split: option.splits)
  have fa: "(case facial_expressions a of None \<Rightarrow> 70 | Some d \<Rightarrow> get_or (facial_confidence_level d) 70) =
            get_or (facial_score a) 70"
    by (simp add: facial_score_def get_or_def split: option.splits)
  show ?thesis
    unfolding calculate_overall_score_def assms sp fa Let_def weighted_sum_scores
    by (simp add: subscript_def err_bind_def spec_overall_score_def mult.commute)
qed

lemma calculate_overall_score_update:
  "calculate_overall_score (a\<lparr>overall_score := v\<rparr>) = calculate_overall_score a"
  by (simp add: calculate_overall_score_def)

section \<open>Ranges of the analyzers' scores\<close>

lemma in_range_clamp_int: "in_range (Some (of_int (max 0 (min 100 x))))"
  by (simp add: in_range_def)

lemma in_range_min_int: "0 \<le> x \<Longrightarrow> in_range (Some (of_int (min 100 x)))"
  by (simp add: in_range_def)

lemma in_range_round:
  assumes "0 \<le> x" and "x \<le> 100"
  shows "in_range (Some (py_round n x))"
  using py_round_le [of x 100 n] py_round_ge [of 0 x n] assms by (simp add: in_range_def)

lemma in_range_round_clamp: "in_range (Some (py_round n (max 0 (min 100 x))))"
  by (rule in_range_round) simp_all

lemma in_range_Some: "in_range v \<Longrightarrow> \<exists>x. v = Some x \<and> 0 \<le> x \<and> x \<le> 100"
  by (cases v) (simp_all add: in_range_def)

lemma bonus_ge: "(q::int) \<le> x \<Longrightarrow> 0 \<le> n \<Longrightarrow> q \<le> (if b then x + n else x)"
  by simp

lemma content_quality_range: "in_range (quality_score (analyze_content_quality text question))"
  unfolding analyze_content_quality_def Let_def content_quality_dict.select_convs
  by (rule in_range_min_int) (intro bonus_ge; simp)

text \<open>
  The model of the doubles does what it is meant to: \<open>exponent2\<close> brackets a positive number
  between two powers of two, and \<open>fl\<close> moves it by at most half a unit in the last place.
\<close>

lemma bit_length_bounds:
  "0 < n \<Longrightarrow> 2 ^ (bit_length n - 1) \<le> n \<and> n < 2 ^ bit_length n"
proof (induction n rule: bit_length.induct)
  case (1 n)
  show ?case
  proof (cases "n div 2 \<le> 0")
    case True
    then have "n = 1" using "1.prems" by linarith
    then show ?thesis by (simp add: bit_length.simps [of 1] bit_length.simps [of 0])
  next
    case False
    then have pos: "0 < n div 2" by simp
    have ih: "2 ^ (bit_length (n div 2) - 1) \<le> n div 2 \<and> n div 2 < 2 ^ bit_length (n div 2)"
      using "1.IH" "1.prems" pos by simp
    have bl: "bit_length n = Suc (bit_length (n div 2))"
      using "1.prems" by (subst bit_length.simps) simp
    have bpos: "0 < bit_length (n div 2)"
      using pos by (subst bit_length.simps) simp
    then obtain k where k: "bit_length (n div 2) = Suc k"
      by (cases "bit_length (n div 2)") simp_all
    have "2 * 2 ^ k \<le> n"
      using ih k by (simp) linarith
    moreover have "n < 2 * 2 ^ Suc k"
      using ih k by simp linarith
    ultimately show ?thesis
      by (simp add: bl k)
  qed
qed

lemma exponent2_bounds:
  assumes "0 < x"
  shows "two_pow (exponent2 x) \<le> x \<and> x < 2 * two_pow (exponent2 x)"
proof (cases "1 \<le> x")
  case True
  define n where "n = \<lfloor>x\<rfloor>"
  have n: "0 < n" using True by (simp add: n_def)
  from bit_length_bounds [OF n] have lo: "2 ^ (bit_length n - 1) \<le> n" and hi: "n < 2 ^ bit_length n"
    by simp_all
  have bpos: "0 < bit_length n"
    using n by (subst bit_length.simps) simp
  then obtain k where k: "bit_length n = Suc k"
    by (cases "bit_length n") simp_all
  have e: "exponent2 x = int k"
    using True by (simp add: exponent2_def n_def [symmetric] k)
  have "(2::rat) ^ k \<le> of_int n"
    using lo k by (metis diff_Suc_1 of_int_le_iff of_int_numeral of_int_power)
  also have "\<dots> \<le> x" by (simp add: n_def)
  finally have 1: "(2::rat) ^ k \<le> x" .
  have "n + 1 \<le> 2 ^ Suc k" using hi k by simp
  then have "(of_int (n + 1) :: rat) \<le> of_int (2 ^ Suc k)"
    by (rule of_int_le_iff [THEN iffD2])
  moreover have "x < of_int (n + 1)"
    unfolding n_def by linarith
  ultimately have 2: "x < 2 * 2 ^ k" by simp
  show ?thesis using 1 2 by (simp add: e two_pow_def)
next
  case False
  then have x1: "x < 1" by simp
  define m where "m = \<lceil>1 / x\<rceil> - 1"
  have inv: "1 < 1 / x" using assms x1 by simp
  have m: "0 < m" using inv by (simp add: m_def)
  from bit_length_bounds [OF m] have lo: "2 ^ (bit_length m - 1) \<le> m" and hi: "m < 2 ^ bit_length m"
    by simp_all
  have bpos: "0 < bit_length m"
    using m by (subst bit_length.simps) simp
  then obtain k where k: "bit_length m = Suc k"
    by (cases "bit_length m") simp_all
  have e: "exponent2 x = - int (Suc k)"
    using False by (simp add: exponent2_def m_def [symmetric] k)
  have "m + 1 \<le> 2 ^ Suc k" using hi k by simp
  then have "(of_int (m + 1) :: rat) \<le> of_int (2 ^ Suc k)"
    by (rule of_int_le_iff [THEN iffD2])
  moreover have "1 / x \<le> of_int (m + 1)"
    unfolding m_def by simp
  ultimately have "1 / x \<le> 2 ^ Suc k" by simp
  then have 1: "1 / 2 ^ Suc k \<le> x"
    using assms by (simp add: field_simps)
  have "(2::rat) ^ k \<le> of_int m"
    using lo k by (metis diff_Suc_1 of_int_le_iff of_int_numeral of_int_power)
  also have "of_int m < 1 / x"
    unfolding m_def by linarith
  finally have "2 ^ k < 1 / x" .
  then have 2: "x < 2 * (1 / 2 ^ Suc k)"
    using assms by (simp add: field_simps)
  have "nat (int k + 1) = Suc k" by simp
  then have "two_pow (exponent2 x) = 1 / 2 ^ Suc k"
    unfolding e two_pow_def by simp
  then show ?thesis using 1 2 by simp
qed

lemma round_half_even_error: "\<bar>of_int (round_half_even y) - y\<bar> \<le> 1 / 2"
proof -
  define d where "d = y - of_int \<lfloor>y\<rfloor>"
  have d: "0 \<le> d" "d < 1" unfolding d_def by linarith+
  have y: "y = of_int \<lfloor>y\<rfloor> + d" by (simp add: d_def)
  have "round_half_even y = \<lfloor>y\<rfloor> \<and> d \<le> 1 / 2 \<or>
        round_half_even y = \<lfloor>y\<rfloor> + 1 \<and> 1 / 2 \<le> d"
    unfolding round_half_even_def Let_def d_def [symmetric] by auto
  then show ?thesis
  proof
    assume "round_half_even y = \<lfloor>y\<rfloor> \<and> d \<le> 1 / 2"
    then show ?thesis using d by (subst (2) y) simp
  next
    assume "round_half_even y = \<lfloor>y\<rfloor> + 1 \<and> 1 / 2 \<le> d"
    then show ?thesis using d by (subst (2) y) simp
  qed
qed

lemma fl_error:
  assumes "0 < x"
  shows "\<bar>fl x - x\<bar> \<le> two_pow (exponent2 x - 52) / 2"
proof -
  define u where "u = two_pow (exponent2 x - 52)"
  have u: "0 < u" by (simp add: u_def two_pow_def)
  have "fl x = of_int (round_half_even (x / u)) * u"
    using assms by (simp add: fl_def Let_def u_def)
  then have "fl x - x = (of_int (round_half_even (x / u)) - x / u) * u"
    using u by (simp add: field_simps)
  then have "\<bar>fl x - x\<bar> = \<bar>of_int (round_half_even (x / u)) - x / u\<bar> * u"
    using u by (simp add: abs_mult)
  also have "\<dots> \<le> 1 / 2 * u"
    using round_half_even_error [of "x / u"] u by (intro mult_right_mono) simp_all
  finally show ?thesis by (simp add: u_def)
qed

lemma two_pow_pos: "0 < two_pow i"
  by (simp add: two_pow_def)

lemma round_half_even_nonneg: "0 \<le> y \<Longrightarrow> 0 \<le> round_half_even y"
  by (simp add: round_half_even_def Let_def)

lemma fl_nonneg:
  assumes "0 \<le> x"
  shows "0 \<le> fl x"
proof (cases "x = 0")
  case True
  then show ?thesis by (simp add: fl_def)
next
  case False
  then have x: "0 < x" using assms by simp
  have "0 \<le> x / two_pow (exponent2 x - 52)"
    using x two_pow_pos [of "exponent2 x - 52"] by simp
  then have "0 \<le> round_half_even (x / two_pow (exponent2 x - 52))"
    by (rule round_half_even_nonneg)
  then have "0 \<le> of_int (round_half_even (x / two_pow (exponent2 x - 52))) *
               two_pow (exponent2 x - 52)"
    using two_pow_pos [of "exponent2 x - 52"] by simp
  then show ?thesis
    using x by (simp add: fl_def Let_def)
qed

lemma fmul_nonneg: "0 \<le> a \<Longrightarrow> 0 \<le> b \<Longrightarrow> 0 \<le> fmul a b"
  unfolding fmul_def by (rule fl_nonneg) simp

lemma fdiv_nonneg: "0 \<le> a \<Longrightarrow> 0 \<le> b \<Longrightarrow> 0 \<le> fdiv a b"
  unfolding fdiv_def by (rule fl_nonneg) simp

lemma relevance_raw_nonneg:
  "0 \<le> fmul (if c then fmul (fdiv (of_nat m) (of_nat n)) 100 else 50) (3 / 2)"
  by (rule fmul_nonneg) (simp_all add: fmul_nonneg fdiv_nonneg)

lemma relevance_range: "in_range (relevance_score (analyze_relevance self answer question))"
  unfolding analyze_relevance_def Let_def relevance_dict.select_convs
  by (rule in_range_round) (rule min.boundedI, simp, rule relevance_raw_nonneg, rule min.cobounded1)

lemma clarity_range: "in_range (clarity_score (analyze_clarity self text))"
  unfolding analyze_clarity_def Let_def clarity_dict.select_convs
  by (rule in_range_clamp_int)

lemma professionalism_range: "in_range (professionalism_score (analyze_professionalism text))"
  unfolding analyze_professionalism_def Let_def professionalism_dict.select_convs
  by (rule in_range_clamp_int)

lemma fluency_range: "in_range (fluency_score (analyze_speech_features self text duration))"
  unfolding analyze_speech_features_def Let_def speech_features_dict.select_convs
  by (rule in_range_clamp_int)

lemma sentiment_range: "in_range (confidence_level (analyze_sentiment self text))"
  unfolding analyze_sentiment_def Let_def sentiment_dict.select_convs
  by (rule in_range_round_clamp)


lemma facial_truthy:
  assumes "truthy video_data"
  shows "analyze_facial_expressions video_data = Inl TypeError \<or>
         (\<exists>f x. analyze_facial_expressions video_data = Inr f \<and>
                facial_confidence_level f = Some (py_round 1 (max 0 (min 100 x))))"
proof -
  obtain d where d: "video_data = Some d"
    using assms by (cases video_data) (simp_all add: truthy_def)
  show ?thesis
  proof (cases "as_num (get_or (map_of d ''engagement_score'') (Num 70))")
    case (Inl e)
    then show ?thesis
      using assms unfolding analyze_facial_expressions_def d Let_def err_bind_def
      by (cases "get_or (map_of d ''engagement_score'') (Num 70)") (simp_all add: as_num_def)
  next
    case eng: (Inr e)
    show ?thesis
    proof (cases "as_num (get_or (map_of d ''eye_contact_percentage'') (Num 60))")
      case (Inl e')
      then have "as_num (get_or (map_of d ''eye_contact_percentage'') (Num 60)) = Inl TypeError"
        by (cases "get_or (map_of d ''eye_contact_percentage'') (Num 60)") (simp_all add: as_num_def)
      then show ?thesis
        using assms eng unfolding analyze_facial_expressions_def d Let_def err_bind_def
        by simp
    next
      case (Inr p)
      then show ?thesis
        using assms eng unfolding analyze_facial_expressions_def d Let_def err_bind_def
        by simp blast
    qed
  qed
qed

section \<open>A run on a non-empty answer\<close>

lemma analyze_answer_nonblank:
  assumes "analyze_answer self answer question video_data audio_duration = Inr b"
    and "strip answer \<noteq> []"
  shows "\<exists>f. (if truthy video_data then analyze_facial_expressions video_data else Inr empty_dict) = Inr f \<and>
             text_metrics b = analyze_text_metrics self answer \<and>
             content_quality b = analyze_content_quality answer question \<and>
             sentiment b = analyze_sentiment self answer \<and>
             relevance b = analyze_relevance self answer question \<and>
             clarity b = analyze_clarity self answer \<and>
             professionalism b = analyze_professionalism answer \<and>
             speech_features b = Some (analyze_speech_features self answer audio_duration) \<and>
             facial_expressions b = Some f \<and>
             calculate_overall_score b = Inr (overall_score b)"
proof -
  have ne: "\<not> (answer = [] \<or> strip answer = [])"
    using assms(2) by (auto simp: strip_def)
  obtain f where f: "(if truthy video_data then analyze_facial_expressions video_data else Inr empty_dict) = Inr f"
    using assms(1) ne unfolding analyze_answer_def Let_def err_bind_def
    by (cases "if truthy video_data then analyze_facial_expressions video_data else Inr empty_dict")
       simp_all
  define A where "A = \<lparr>text_metrics = analyze_text_metrics self answer,
                  content_quality = analyze_content_quality answer question,
                  sentiment = analyze_sentiment self answer,
                  relevance = analyze_relevance self answer question,
                  clarity = analyze_clarity self answer,
                  professionalism = analyze_professionalism answer,
                  speech_features = Some (analyze_speech_features self answer audio_duration),
                  facial_expressions = Some f,
                  overall_score = 0\<rparr>"
  have run: "analyze_answer self answer question video_data audio_duration =
             err_bind (calculate_overall_score A) (\<lambda>overall. Inr (A\<lparr>overall_score := overall\<rparr>))"
    using ne unfolding analyze_answer_def Let_def f A_def by (simp add: err_bind_def)
  then obtain ov where ov: "calculate_overall_score A = Inr ov" and b: "b = A\<lparr>overall_score := ov\<rparr>"
    using assms(1) by (cases "calculate_overall_score A") (simp_all add: err_bind_def)
  have "calculate_overall_score b = Inr (overall_score b)"
    unfolding b calculate_overall_score_update ov by simp
  then show ?thesis
    using f by (simp add: b A_def)
qed

lemma spec_overall_score_range:
  assumes "0 \<le> a \<and> a \<le> 100" "0 \<le> b \<and> b \<le> 100" "0 \<le> c \<and> c \<le> 100" "0 \<le> d \<and> d \<le> 100"
    "0 \<le> e \<and> e \<le> 100" "0 \<le> f \<and> f \<le> 100" "0 \<le> g \<and> g \<le> 100"
  shows "0 \<le> spec_overall_score a b c d e f g \<and> spec_overall_score a b c d e f g \<le> 100"
proof -
  have "in_range (Some (spec_overall_score a b c d e f g))"
    unfolding spec_overall_score_def using assms by (intro in_range_round) linarith+
  then show ?thesis by (simp add: in_range_def)
qed

lemma get_or_range:
  "v = None \<or> in_range v \<Longrightarrow> 0 \<le> get_or v 70 \<and> get_or v 70 \<le> 100"
  by (cases v) (simp_all add: get_or_def in_range_def)

lemma facial_choice_range:
  assumes "(if truthy video_data then analyze_facial_expressions video_data else Inr empty_dict) = Inr f"
  shows "if truthy video_data then in_range (facial_confidence_level f)
         else facial_confidence_level f = None"
proof (cases "truthy video_data")
  case True
  then show ?thesis
    using assms facial_truthy [OF True] in_range_round_clamp by auto
next
  case False
  then show ?thesis using assms by (auto simp: empty_dict_def)
qed

lemma facial_choice_total:
  assumes "video_ok video_data"
  shows "\<exists>f. (if truthy video_data then analyze_facial_expressions video_data else Inr empty_dict) = Inr f"
proof (cases "truthy video_data")
  case False
  then show ?thesis by simp
next
  case True
  then obtain d where d: "video_data = Some d"
    by (cases video_data) (simp_all add: truthy_def)
  obtain e where e: "get_or (map_of d ''engagement_score'') (Num 70) = Num e"
    using assms unfolding d video_ok_def numeric_entry_def get_or_def
    by (cases "map_of d ''engagement_score''"; cases "the (map_of d ''engagement_score'')") auto
  obtain p where p: "get_or (map_of d ''eye_contact_percentage'') (Num 60) = Num p"
    using assms unfolding d video_ok_def numeric_entry_def get_or_def
    by (cases "map_of d ''eye_contact_percentage''"; cases "the (map_of d ''eye_contact_percentage'')") auto
  show ?thesis
    using True unfolding d
    by (simp add: analyze_facial_expressions_def Let_def e p as_num_def err_bind_def)
qed


lemma analyze_answer_returns:
  assumes "(if truthy video_data then analyze_facial_expressions video_data else Inr empty_dict) = Inr f"
  shows "\<exists>b. analyze_answer self answer question video_data audio_duration = Inr b"
proof (cases "answer = [] \<or> strip answer = []")
  case True
  then show ?thesis by (simp add: analyze_answer_def)
next
  case False
  define A where "A = \<lparr>text_metrics = analyze_text_metrics self answer,
                  content_quality = analyze_content_quality answer question,
                  sentiment = analyze_sentiment self answer,
                  relevance = analyze_relevance self answer question,
                  clarity = analyze_clarity self answer,
                  professionalism = analyze_professionalism answer,
                  speech_features = Some (analyze_speech_features self answer audio_duration),
                  facial_expressions = Some f,
                  overall_score = 0\<rparr>"
  obtain cq where cq: "quality_score (content_quality A) = Some cq"
    using in_range_Some [OF content_quality_range [of answer question]] by (auto simp: A_def)
  obtain rel where rel: "relevance_score (relevance A) = Some rel"
    using in_range_Some [OF relevance_range [of self answer question]] by (auto simp: A_def)
  obtain cl where cl: "clarity_score (clarity A) = Some cl"
    using in_range_Some [OF clarity_range [of self answer]] by (auto simp: A_def)
  obtain se where se: "confidence_level (sentiment A) = Some se"
    using in_range_Some [OF sentiment_range [of self answer]] by (auto simp: A_def)
  obtain pr where pr: "professionalism_score (professionalism A) = Some pr"
    using in_range_Some [OF professionalism_range [of answer]] by (auto simp: A_def)
  have "analyze_answer self answer question video_data audio_duration =
        err_bind (calculate_overall_score A) (\<lambda>overall. Inr (A\<lparr>overall_score := overall\<rparr>))"
    using False unfolding analyze_answer_def Let_def assms A_def by (simp add: err_bind_def)
  then show ?thesis
    unfolding calculate_overall_score_eq [OF cq rel cl se pr] by (simp add: err_bind_def)
qed

lemma sample_run:
  "analyze_answer sample_nlp ''I have experience with Python''
     ''What is your experience with Python?'' None 0 = Inr sample_bundle"
  by code_simp

lemma sample_nonblank: "strip ''I have experience with Python'' \<noteq> []"
  by code_simp

section \<open>Every score is a percentage\<close>

text \<open>
  C1. For every answer text, question, optional video signal and duration, every designated
  score of the bundle that \<open>analyze_answer\<close> returns lies in the closed interval from 0 to
  100: the content quality score, the relevance score, the clarity score, the sentiment
  confidence level, the professionalism score, the speech fluency score, the facial
  confidence level where the bundle has one (it has none exactly for a non-empty answer
  without video data), and the overall score. A bundle is returned whenever the video
  signal's percentage and score are numbers.
\<close>

theorem scores_in_range:
  "(video_ok video_data \<longrightarrow>
      (\<exists>b. analyze_answer self answer question video_data audio_duration = Inr b)) \<and>
   (\<forall>b. analyze_answer self answer question video_data audio_duration = Inr b \<longrightarrow>
      in_range (quality_score (content_quality b)) \<and>
      in_range (relevance_score (relevance b)) \<and>
      in_range (clarity_score (clarity b)) \<and>
      in_range (confidence_level (sentiment b)) \<and>
      in_range (professionalism_score (professionalism b)) \<and>
      in_range (speech_score b) \<and>
      (if strip answer \<noteq> [] \<and> \<not> truthy video_data then facial_score b = None
       else in_range (facial_score b)) \<and>
      0 \<le> overall_score b \<and> overall_score b \<le> 100)"
proof (rule conjI)
  show "video_ok video_data \<longrightarrow>
      (\<exists>b. analyze_answer self answer question video_data audio_duration = Inr b)"
    using facial_choice_total analyze_answer_returns by blast
next
  show "\<forall>b. analyze_answer self answer question video_data audio_duration = Inr b \<longrightarrow>
      in_range (quality_score (content_quality b)) \<and>
      in_range (relevance_score (relevance b)) \<and>
      in_range (clarity_score (clarity b)) \<and>
      in_range (confidence_level (sentiment b)) \<and>
      in_range (professionalism_score (professionalism b)) \<and>
      in_range (speech_score b) \<and>
      (if strip answer \<noteq> [] \<and> \<not> truthy video_data then facial_score b = None
       else in_range (facial_score b)) \<and>
      0 \<le> overall_score b \<and> overall_score b \<le> 100"
  proof (rule allI, rule impI)
  fix b
  assume run: "analyze_answer self answer question video_data audio_duration = Inr b"
  show "in_range (quality_score (content_quality b)) \<and>
      in_range (relevance_score (relevance b)) \<and>
      in_range (clarity_score (clarity b)) \<and>
      in_range (confidence_level (sentiment b)) \<and>
      in_range (professionalism_score (professionalism b)) \<and>
      in_range (speech_score b) \<and>
      (if strip answer \<noteq> [] \<and> \<not> truthy video_data then facial_score b = None
       else in_range (facial_score b)) \<and>
      0 \<le> overall_score b \<and> overall_score b \<le> 100"
  proof (cases "strip answer = []")
    case True
    then have "b = get_empty_analysis"
      using run by (simp add: analyze_answer_def)
    then show ?thesis
      using True by (simp add: get_empty_analysis_def in_range_def speech_score_def facial_score_def)
  next
    case False
    from analyze_answer_nonblank [OF run False] obtain f where
      f: "(if truthy video_data then analyze_facial_expressions video_data else Inr empty_dict) = Inr f"
      and parts: "content_quality b = analyze_content_quality answer question"
        "sentiment b = analyze_sentiment self answer"
        "relevance b = analyze_relevance self answer question"
        "clarity b = analyze_clarity self answer"
        "professionalism b = analyze_professionalism answer"
        "speech_features b = Some (analyze_speech_features self answer audio_duration)"
        "facial_expressions b = Some f"
      and ov: "calculate_overall_score b = Inr (overall_score b)"
      by blast
    have r1: "in_range (quality_score (content_quality b))"
      unfolding parts by (rule content_quality_range)
    have r2: "in_range (relevance_score (relevance b))"
      unfolding parts by (rule relevance_range)
    have r3: "in_range (clarity_score (clarity b))"
      unfolding parts by (rule clarity_range)
    have r4: "in_range (confidence_level (sentiment b))"
      unfolding parts by (rule sentiment_range)
    have r5: "in_range (professionalism_score (professionalism b))"
      unfolding parts by (rule professionalism_range)
    have r6: "in_range (speech_score b)"
      unfolding speech_score_def parts by (simp add: fluency_range)
    have r7: "if truthy video_data then in_range (facial_score b) else facial_score b = None"
      using facial_choice_range [OF f] by (simp add: facial_score_def parts)
    obtain cq rel cl se pr where
      v: "quality_score (content_quality b) = Some cq" "0 \<le> cq \<and> cq \<le> 100"
         "relevance_score (relevance b) = Some rel" "0 \<le> rel \<and> rel \<le> 100"
         "clarity_score (clarity b) = Some cl" "0 \<le> cl \<and> cl \<le> 100"
         "confidence_level (sentiment b) = Some se" "0 \<le> se \<and> se \<le> 100"
         "professionalism_score (professionalism b) = Some pr" "0 \<le> pr \<and> pr \<le> 100"
      using in_range_Some [OF r1] in_range_Some [OF r2] in_range_Some [OF r3]
        in_range_Some [OF r4] in_range_Some [OF r5] by blast
    have "overall_score b = spec_overall_score cq rel cl se pr (get_or (speech_score b) 70)
            (get_or (facial_score b) 70)"
      using ov calculate_overall_score_eq [OF v(1) v(3) v(5) v(7) v(9)] by simp
    moreover have "0 \<le> get_or (speech_score b) 70 \<and> get_or (speech_score b) 70 \<le> 100"
      using r6 by (intro get_or_range) simp
    moreover have "0 \<le> get_or (facial_score b) 70 \<and> get_or (facial_score b) 70 \<le> 100"
      using r7 by (intro get_or_range) (simp split: if_splits)
    ultimately have "0 \<le> overall_score b \<and> overall_score b \<le> 100"
      using spec_overall_score_range [OF v(2) v(4) v(6) v(8) v(10)] by simp
    then show ?thesis
      using r1 r2 r3 r4 r5 r6 r7 False by simp
  qed
  qed
qed

theorem scores_in_range_witness:
  "video_ok None \<and>
   analyze_answer sample_nlp ''I have experience with Python''
     ''What is your experience with Python?'' None 0 = Inr sample_bundle \<and>
   in_range (quality_score (content_quality sample_bundle)) \<and>
   in_range (speech_score sample_bundle) \<and>
   facial_score sample_bundle = None \<and>
   0 \<le> overall_score sample_bundle \<and> overall_score sample_bundle \<le> 100"
  using scores_in_range [of None sample_nlp "''I have experience with Python''"
      "''What is your experience with Python?''" 0] sample_run sample_nonblank
  by (simp add: video_ok_def truthy_def)

section \<open>The empty answer\<close>

text \<open>
  C3. For every question, video signal and duration, if the answer text is empty or consists
  only of whitespace characters, \<open>analyze_answer\<close> raises nothing and returns the zeroed
  placeholder bundle, whatever the collaborators are (no analyzer is consulted): each
  designated score of that bundle is 0 and its overall score is 0.
\<close>

theorem analyze_answer_blank:
  assumes "list_all py_isspace answer"
  shows "analyze_answer self answer question video_data audio_duration = Inr get_empty_analysis \<and>
         quality_score (content_quality get_empty_analysis) = Some 0 \<and>
         relevance_score (relevance get_empty_analysis) = Some 0 \<and>
         clarity_score (clarity get_empty_analysis) = Some 0 \<and>
         confidence_level (sentiment get_empty_analysis) = Some 0 \<and>
         professionalism_score (professionalism get_empty_analysis) = Some 0 \<and>
         speech_score get_empty_analysis = Some 0 \<and>
         facial_score get_empty_analysis = Some 0 \<and>
         word_count (text_metrics get_empty_analysis) = Some 0 \<and>
         overall_score get_empty_analysis = 0"
proof -
  have "answer = [] \<or> strip answer = []"
    using strip_blank [OF assms] by simp
  then have "analyze_answer self answer question video_data audio_duration = Inr get_empty_analysis"
    unfolding analyze_answer_def by simp
  then show ?thesis
    by (simp add: get_empty_analysis_def speech_score_def facial_score_def)
qed

theorem analyze_answer_blank_witness:
  "list_all py_isspace ''   '' \<and>
   analyze_answer sample_nlp ''   '' ''Why?'' None 0 = Inr get_empty_analysis \<and>
   overall_score get_empty_analysis = 0"
  using analyze_answer_blank [of "''   ''" sample_nlp "''Why?''" None 0]
  by (simp add: py_isspace_def)

section \<open>The facial part without video\<close>




section \<open>Feedback on the bundles\<close>

lemma Some_ex: "\<exists>x. Some v = Some x"
  by blast

lemma speech_filler_present:
  "\<exists>x. filler_word_count (analyze_speech_features self text duration) = Some x"
  unfolding analyze_speech_features_def Let_def speech_features_dict.select_convs
  by (rule Some_ex)

lemma speech_stutter_present:
  "\<exists>x. stuttering_instances (analyze_speech_features self text duration) = Some x"
  unfolding analyze_speech_features_def Let_def speech_features_dict.select_convs
  by (rule Some_ex)

lemma speech_pace_present:
  "\<exists>x. speaking_pace (analyze_speech_features self text duration) = Some x"
  unfolding analyze_speech_features_def Let_def speech_features_dict.select_convs
  by (rule Some_ex)

lemma word_count_present:
  "\<exists>x. word_count (analyze_text_metrics self text) = Some x"
  unfolding analyze_text_metrics_def Let_def text_metrics_dict.select_convs
  by (rule Some_ex)

lemma speech_feedback_returns:
  assumes "speech_features b = Some (analyze_speech_features self answer audio_duration)"
  shows "\<exists>fb. speech_feedback b = Inr fb"
proof -
  define sp where "sp = analyze_speech_features self answer audio_duration"
  obtain x y z where f: "filler_word_count sp = Some x" "stuttering_instances sp = Some y"
    "speaking_pace sp = Some z"
    unfolding sp_def
    using speech_filler_present speech_stutter_present speech_pace_present by blast
  have "speech_features b = Some sp" using assms by (simp add: sp_def)
  then show ?thesis
    unfolding speech_feedback_def by (simp add: f Let_def subscript_def err_bind_def)
qed

lemma content_feedback_returns:
  assumes "quality_score (content_quality b) = Some q"
  shows "\<exists>fb. content_feedback b = Inr fb"
  unfolding content_feedback_def Let_def assms
  by (simp add: subscript_def err_bind_def)

lemma score_feedback_returns:
  assumes "relevance_score (relevance b) = Some r"
    and "clarity_score (clarity b) = Some c"
    and "professionalism_score (professionalism b) = Some p"
    and "word_count (text_metrics b) = Some n"
  shows "\<exists>fb. score_feedback b = Inr fb"
  unfolding score_feedback_def Let_def assms
  by (simp add: subscript_def err_bind_def)

lemma get_feedback_length:
  assumes "content_feedback b = Inr c" and "speech_feedback b = Inr s"
    and "score_feedback b = Inr t"
  shows "\<exists>fb. get_feedback b = Inr fb \<and> 1 \<le> length fb \<and> length fb \<le> 5"
proof -
  define xs where "xs = c @ s @ facial_feedback b @ t"
  define ys where "ys = (if xs = [] then [''Excellent answer! Keep up the great work!''] else xs)"
  have "ys \<noteq> []" by (simp add: ys_def)
  then have "1 \<le> length (take 5 ys) \<and> length (take 5 ys) \<le> 5"
    by (cases ys) simp_all
  moreover have "get_feedback b = Inr (take 5 ys)"
    unfolding get_feedback_def assms Let_def ys_def xs_def by (simp add: err_bind_def)
  ultimately show ?thesis by blast
qed

lemma get_feedback_nonblank:
  assumes run: "analyze_answer self answer question video_data audio_duration = Inr b"
    and ne: "strip answer \<noteq> []"
  shows "\<exists>fb. get_feedback b = Inr fb \<and> 1 \<le> length fb \<and> length fb \<le> 5"
proof -
  from analyze_answer_nonblank [OF run ne] have
    parts: "content_quality b = analyze_content_quality answer question"
      "relevance b = analyze_relevance self answer question"
      "clarity b = analyze_clarity self answer"
      "professionalism b = analyze_professionalism answer"
    and tm: "text_metrics b = analyze_text_metrics self answer"
    and sp: "speech_features b = Some (analyze_speech_features self answer audio_duration)"
    by blast+
  obtain cq where cq: "quality_score (content_quality b) = Some cq"
    using in_range_Some [OF content_quality_range [of answer question]] parts by auto
  obtain rel where rel: "relevance_score (relevance b) = Some rel"
    using in_range_Some [OF relevance_range [of self answer question]] parts by auto
  obtain cl where cl: "clarity_score (clarity b) = Some cl"
    using in_range_Some [OF clarity_range [of self answer]] parts by auto
  obtain pr where pr: "professionalism_score (professionalism b) = Some pr"
    using in_range_Some [OF professionalism_range [of answer]] parts by auto
  obtain n where wc: "word_count (text_metrics b) = Some n"
    unfolding tm using word_count_present by blast
  obtain c s t where "content_feedback b = Inr c" "speech_feedback b = Inr s"
    "score_feedback b = Inr t"
    using content_feedback_returns [OF cq] speech_feedback_returns [OF sp]
      score_feedback_returns [OF rel cl pr wc] by blast
  then show ?thesis by (rule get_feedback_length)
qed

text \<open>
  C2. For every bundle produced by \<open>analyze_answer\<close>, the placeholder bundle of an empty
  answer included, \<open>get_feedback\<close> raises nothing and returns between one and five strings.
  On the bundles of non-empty answers it does (\<open>get_feedback_nonblank\<close>). On the placeholder
  bundle it does not: the speech dictionary there has only its fluency score, and
  \<open>get_feedback\<close> subscripts it with \<^verbatim>\<open>filler_word_count\<close>.
\<close>

theorem get_feedback_empty_bundle_raises:
  "analyze_answer sample_nlp [] ''What is your experience with Python?'' None 0 =
     Inr get_empty_analysis \<and>
   get_feedback get_empty_analysis = Inl (KeyError ''filler_word_count'')"
  by (simp add: analyze_answer_def get_feedback_def content_feedback_def speech_feedback_def
      get_empty_analysis_def subscript_def err_bind_def)

section \<open>Speech fluency\<close>

lemma speech_fields:
  "filler_word_count (analyze_speech_features self text duration) = Some (filler_count (lower text))"
  "stuttering_instances (analyze_speech_features self text duration) =
     Some (int (findall_stutter None (lower text)))"
  "pause_indicators (analyze_speech_features self text duration) = Some (pause_count text)"
  "fluency_score (analyze_speech_features self text duration) =
     Some (of_int (max 0 (min 100
       (if words_per_minute self text duration > 0
        then if words_per_minute self text duration < 100
             then penalised (filler_count (lower text)) (int (findall_stutter None (lower text)))
                    (pause_count text) - 10
             else if words_per_minute self text duration > 200
             then penalised (filler_count (lower text)) (int (findall_stutter None (lower text)))
                    (pause_count text) - 10
             else penalised (filler_count (lower text)) (int (findall_stutter None (lower text)))
                    (pause_count text)
        else penalised (filler_count (lower text)) (int (findall_stutter None (lower text)))
               (pause_count text)))))"
  unfolding analyze_speech_features_def Let_def speech_features_dict.select_convs
    filler_count_def pause_count_def words_per_minute_def penalised_def
  by (rule refl)+





section \<open>One ellipsis counts as two pauses\<close>

lemma count_str_skip:
  assumes "c \<notin> set pre"
  shows "count_str (pre @ s) (c # sub) = count_str s (c # sub)"
  using assms
proof (induction pre)
  case Nil
  then show ?case by simp
next
  case (Cons x pre)
  then have "x \<noteq> c" by auto
  then have "count_str ((x # pre) @ s) (c # sub) = count_str (pre @ s) (c # sub)"
    by (subst count_str.simps) (simp add: startswith_def)
  then show ?case using Cons by simp
qed

lemma count_str_absent:
  assumes "c \<notin> set s"
  shows "count_str s (c # sub) = 0"
proof -
  have "count_str (s @ []) (c # sub) = count_str [] (c # sub)"
    using assms by (rule count_str_skip)
  then show ?thesis by (simp add: count_str.simps)
qed

lemma pause_count_single_ellipsis:
  assumes "CHR ''.'' \<notin> set pre" and "CHR ''.'' \<notin> set post"
  shows "count_str (pre @ ''...'' @ post) ''...'' = 1"
    and "count_str (pre @ ''...'' @ post) ''..'' = 1"
proof -
  have post0: "count_str post (CHR ''.'' # sub) = 0" for sub
    using assms(2) by (rule count_str_absent)
  have "count_str (''...'' @ post) ''...'' = 1 + count_str post ''...''"
    by (subst count_str.simps) (simp add: startswith_def)
  then show "count_str (pre @ ''...'' @ post) ''...'' = 1"
    using count_str_skip [OF assms(1), of "''...'' @ post" "''..''"] post0 [of "''..''"]
    by simp
  have nostart: "\<not> startswith (CHR ''.'' # post) ''..''"
    using assms(2) by (cases post) (auto simp: startswith_def)
  have "count_str (''...'' @ post) ''..'' = 1 + count_str (CHR ''.'' # post) ''..''"
    by (subst count_str.simps) (simp add: startswith_def)
  also have "count_str (CHR ''.'' # post) ''..'' = count_str post ''..''"
    using nostart by (subst count_str.simps) simp
  finally show "count_str (pre @ ''...'' @ post) ''..'' = 1"
    using count_str_skip [OF assms(1), of "''...'' @ post" "''.''"] post0 [of "''.''"]
    by simp
qed

lemma hesitant_speech_run:
  "analyze_speech_features sample_nlp ''Um uh like so I I went ...'' 0 =
     \<lparr>filler_word_count = Some 4, speaking_rate = Some 0, repetitions = Some 0,
      stuttering_instances = Some 1, pause_indicators = Some 2,
      fluency_score = Some 60, speaking_pace = Some ''unknown''\<rparr>"
  by code_simp

text \<open>
  C7, as stated: a text with four filler occurrences, one stutter, one ellipsis and no other
  dot, analysed with duration 0, would have the fluency score 65. The text below is such a
  text, and its score is 60.
\<close>

theorem fluency_example_counterexample:
  "filler_word_count (analyze_speech_features sample_nlp ''Um uh like so I I went ...'' 0) = Some 4 \<and>
   stuttering_instances (analyze_speech_features sample_nlp ''Um uh like so I I went ...'' 0) = Some 1 \<and>
   ''Um uh like so I I went ...'' = ''Um uh like so I I went '' @ ''...'' \<and>
   CHR ''.'' \<notin> set ''Um uh like so I I went '' \<and>
   fluency_score (analyze_speech_features sample_nlp ''Um uh like so I I went ...'' 0) = Some 60 \<and>
   fluency_score (analyze_speech_features sample_nlp ''Um uh like so I I went ...'' 0) \<noteq> Some 65"
  using hesitant_speech_run by simp

text \<open>
  C7, amended. For an answer text whose lowercased form contains exactly four filler-word
  occurrences and exactly one adjacent repeated word, and which contains one ellipsis and no
  other dot, analysed with duration 0, the pause tally is 2 (the ellipsis is counted once as
  three dots and once as two) and the fluency score is 100 - 20 - 10 - 10 = 60.
\<close>

theorem fluency_single_ellipsis:
  assumes "filler_word_count (analyze_speech_features self text duration) = Some 4"
    and "stuttering_instances (analyze_speech_features self text duration) = Some 1"
    and "text = pre @ ''...'' @ post"
    and "CHR ''.'' \<notin> set pre" and "CHR ''.'' \<notin> set post"
    and "duration = 0"
  shows "pause_indicators (analyze_speech_features self text duration) = Some 2 \<and>
         fluency_score (analyze_speech_features self text duration) = Some 60"
proof -
  have fc: "filler_count (lower text) = 4"
    using assms(1) unfolding speech_fields by simp
  have st: "int (findall_stutter None (lower text)) = 1"
    using assms(2) unfolding speech_fields by simp
  have p: "pause_count text = 2"
    unfolding pause_count_def assms(3)
    using pause_count_single_ellipsis [OF assms(4) assms(5)] by simp
  have r: "words_per_minute self text duration = 0"
    using assms(6) by (simp add: words_per_minute_def)
  show ?thesis
    unfolding speech_fields fc st p r by (simp add: penalised_def)
qed

theorem fluency_single_ellipsis_witness:
  "filler_word_count (analyze_speech_features sample_nlp ''Um uh like so I I went ...'' 0) = Some 4 \<and>
   stuttering_instances (analyze_speech_features sample_nlp ''Um uh like so I I went ...'' 0) = Some 1 \<and>
   ''Um uh like so I I went ...'' = ''Um uh like so I I went '' @ ''...'' @ [] \<and>
   CHR ''.'' \<notin> set ''Um uh like so I I went '' \<and>
   pause_indicators (analyze_speech_features sample_nlp ''Um uh like so I I went ...'' 0) = Some 2 \<and>
   fluency_score (analyze_speech_features sample_nlp ''Um uh like so I I went ...'' 0) = Some 60"
proof -
  have h1: "filler_word_count (analyze_speech_features sample_nlp ''Um uh like so I I went ...'' 0) = Some 4"
    unfolding hesitant_speech_run by simp
  have h2: "stuttering_instances (analyze_speech_features sample_nlp ''Um uh like so I I went ...'' 0) = Some 1"
    unfolding hesitant_speech_run by simp
  have h3: "''Um uh like so I I went ...'' = ''Um uh like so I I went '' @ ''...'' @ []"
    by simp
  have h4: "CHR ''.'' \<notin> set ''Um uh like so I I went ''"
    by simp
  have h5: "CHR ''.'' \<notin> set []"
    by simp
  have h6: "(0::rat) = 0"
    by simp
  from fluency_single_ellipsis [OF h1 h2 h3 h4 h5 h6] h1 h2 h3 h4
  show ?thesis by (intro conjI) (erule conjunct1 conjunct2 | assumption)+
qed

section \<open>Clarity\<close>

lemma clarity_fields:
  "transition_words (analyze_clarity self text) =
     Some (int (length (filter (contains (lower text)) transitions)))"
  "has_structure (analyze_clarity self text) =
     Some (int (length (filter (contains (lower text)) transitions)) > 0)"
  "clarity_score (analyze_clarity self text) =
     Some (of_int (max 0 (min 100
       (if 10 < avg_sentence_words self text \<and> avg_sentence_words self text < 25
        then 60 + min (int (length (filter (contains (lower text)) transitions)) * 8) 24 + 16
        else if avg_sentence_words self text < 5
        then 60 + min (int (length (filter (contains (lower text)) transitions)) * 8) 24 - 10
        else 60 + min (int (length (filter (contains (lower text)) transitions)) * 8) 24))))"
  unfolding analyze_clarity_def Let_def clarity_dict.select_convs avg_sentence_words_def
  by (rule refl)+

lemma transitions_distinct: "distinct transitions"
  by (simp add: transitions_def)

lemma transitions_present_eq:
  "transitions_present text = int (length (filter (contains (lower text)) transitions))"
proof -
  have e: "{t \<in> set transitions. contains (lower text) t} =
           set (filter (contains (lower text)) transitions)"
    by auto
  have d: "distinct (filter (contains (lower text)) transitions)"
    using transitions_distinct by (rule distinct_filter)
  show ?thesis
    unfolding transitions_present_def e distinct_card [OF d] by (rule refl)
qed

lemma repeated_clarity_run:
  "analyze_clarity sample_nlp ''first first'' =
     \<lparr>clarity_score = Some 58, has_structure = Some True, transition_words = Some 1\<rparr>"
  by code_simp

lemma repeated_occurrences: "spec_transition_occurrences ''first first'' = 2"
  by code_simp

lemma repeated_avg: "avg_sentence_words sample_nlp ''first first'' = 2"
  by code_simp

text \<open>
  C8, as stated: the transition count would be the number of occurrences of the transition
  words in the text. In the text below \<^verbatim>\<open>first\<close> occurs twice and the count is 1; the
  clarity score is 58 where the stated formula gives 66.
\<close>

theorem transition_count_counterexample:
  "transition_words (analyze_clarity sample_nlp ''first first'') = Some 1 \<and>
   spec_transition_occurrences ''first first'' = 2 \<and>
   clarity_score (analyze_clarity sample_nlp ''first first'') = Some 58 \<and>
   spec_clarity_score (spec_transition_occurrences ''first first'')
     (avg_sentence_words sample_nlp ''first first'') = 66"
  using repeated_clarity_run repeated_occurrences repeated_avg
  by (simp add: spec_clarity_score_def)

text \<open>
  C8, amended. For every answer, the transition count is the number of the fixed transition
  words that occur in the lowercased text at least once (each word counts once, however often
  it occurs); the clarity score is the clamp to the interval from 0 to 100 of 60 plus
  min(count * 8, 24), plus 16 if the average sentence length is strictly between 10 and 25
  words, minus 10 if it is below 5; and \<open>has_structure\<close> holds iff the count is positive.
\<close>

theorem clarity_formula:
  "transition_words (analyze_clarity self text) = Some (transitions_present text) \<and>
   clarity_score (analyze_clarity self text) =
     Some (of_int (spec_clarity_score (transitions_present text) (avg_sentence_words self text))) \<and>
   has_structure (analyze_clarity self text) = Some (0 < transitions_present text)"
  unfolding clarity_fields transitions_present_eq [symmetric] spec_clarity_score_def
  by simp

theorem clarity_formula_witness:
  "transitions_present ''first first'' = 1 \<and>
   transition_words (analyze_clarity sample_nlp ''first first'') = Some 1 \<and>
   clarity_score (analyze_clarity sample_nlp ''first first'') = Some 58 \<and>
   spec_clarity_score 1 2 = 58 \<and>
   has_structure (analyze_clarity sample_nlp ''first first'') = Some True"
  using clarity_formula [of sample_nlp "''first first''"] repeated_clarity_run repeated_avg
  by (simp add: spec_clarity_score_def)

section \<open>Relevance\<close>

lemma relevance_fields:
  "keyword_overlap (analyze_relevance self answer question) =
     Some (int (card (spec_content_words self answer \<inter> spec_content_words self question)))"
  "relevance_score (analyze_relevance self answer question) =
     Some (py_round 1 (min 100
       (fmul (if spec_content_words self question \<noteq> {}
              then fmul (fdiv (of_nat (card (spec_content_words self answer \<inter>
                                             spec_content_words self question)))
                           (of_nat (card (spec_content_words self question)))) 100
              else 50) (3 / 2))))"
  "directly_addresses_question (analyze_relevance self answer question) =
     Some (of_nat (card (spec_content_words self answer \<inter> spec_content_words self question))
           \<ge> of_nat (card (spec_content_words self question)) * (3 / 10 :: rat))"
  unfolding analyze_relevance_def Let_def relevance_dict.select_convs spec_content_words_def
  by (rule refl)+

lemma spec_content_words_finite: "finite (spec_content_words self s)"
  by (simp add: spec_content_words_def)

lemma sample_relevance_run:
  "analyze_relevance sample_nlp ''I have experience with Python''
     ''What is your experience with Python?'' =
     \<lparr>relevance_score = Some 100, keyword_overlap = Some 2,
      directly_addresses_question = Some True\<rparr>"
  by code_simp

lemma tie_relevance_run:
  "analyze_relevance sample_nlp ''ab ac ad ae af''
     ''ab ac ad ae af ag ah aj ak al ao ap aq ar au av aw ax ay az ba bb bc bd'' =
     \<lparr>relevance_score = Some (313 / 10), keyword_overlap = Some 5,
      directly_addresses_question = Some False\<rparr>"
  by code_simp

text \<open>
  C9. For every answer and question, with both reduced to their sets of lowercase alphabetic
  tokens that are not stop words: the keyword overlap is the size of the intersection; the
  relevance score is the overlap divided by the number of the question's content words,
  times 100 (50 if the question has none), then multiplied by 1.5, capped at 100 and rounded
  to one decimal, the division and the multiplications being those of floats; and
  \<open>directly_addresses_question\<close> holds iff the overlap is at least 30% of the number of the
  question's content words. With 5 of 24 content words matched the float product is just
  above 31.25 and the score is 31.3.
\<close>

theorem relevance_formula:
  "keyword_overlap (analyze_relevance self answer question) =
     Some (int (card (spec_content_words self answer \<inter> spec_content_words self question))) \<and>
   relevance_score (analyze_relevance self answer question) =
     Some (spec_relevance_score
             (card (spec_content_words self answer \<inter> spec_content_words self question))
             (card (spec_content_words self question))) \<and>
   directly_addresses_question (analyze_relevance self answer question) =
     Some (30 / 100 * of_nat (card (spec_content_words self question))
           \<le> (of_nat (card (spec_content_words self answer \<inter> spec_content_words self question)) :: rat))"
proof -
  have "(card (spec_content_words self question) \<noteq> 0) = (spec_content_words self question \<noteq> {})"
    using spec_content_words_finite [of self question] by simp
  then show ?thesis
    unfolding relevance_fields spec_relevance_score_def by (simp add: mult.commute)
qed

theorem relevance_formula_witness:
  "int (card (spec_content_words sample_nlp ''I have experience with Python'' \<inter>
             spec_content_words sample_nlp ''What is your experience with Python?'')) = 2 \<and>
   keyword_overlap (analyze_relevance sample_nlp ''I have experience with Python''
     ''What is your experience with Python?'') = Some 2 \<and>
   relevance_score (analyze_relevance sample_nlp ''I have experience with Python''
     ''What is your experience with Python?'') = Some 100 \<and>
   directly_addresses_question (analyze_relevance sample_nlp ''I have experience with Python''
     ''What is your experience with Python?'') = Some True \<and>
   relevance_score (analyze_relevance sample_nlp ''ab ac ad ae af''
     ''ab ac ad ae af ag ah aj ak al ao ap aq ar au av aw ax ay az ba bb bc bd'') =
     Some (313 / 10)"
  using relevance_formula [of sample_nlp "''I have experience with Python''"
      "''What is your experience with Python?''"] sample_relevance_run tie_relevance_run
  by simp

lemma fmul_fifty: "fmul 50 (3 / 2) = 75"
  by code_simp

text \<open>
  C10. Whenever the question has no content words (an empty question, for one), the
  relevance analyzer reports that the answer addresses the question directly, and the
  relevance score is 75.
\<close>

theorem relevance_without_question_words:
  assumes "spec_content_words self question = {}"
  shows "relevance_score (analyze_relevance self answer question) = Some 75 \<and>
         directly_addresses_question (analyze_relevance self answer question) = Some True \<and>
         keyword_overlap (analyze_relevance self answer question) = Some 0"
proof -
  have "py_round 1 (min 100 (fmul 50 (3 / 2))) = 75"
    using py_round_of_int [of 1 75] by (simp add: fmul_fifty)
  then show ?thesis
    unfolding relevance_fields assms by simp
qed

lemma empty_question_words: "spec_content_words sample_nlp [] = {}"
  by (simp add: spec_content_words_def sample_nlp_def lower_def)

theorem relevance_without_question_words_witness:
  "spec_content_words sample_nlp [] = {} \<and>
   relevance_score (analyze_relevance sample_nlp ''I have experience with Python'' []) = Some 75 \<and>
   directly_addresses_question
     (analyze_relevance sample_nlp ''I have experience with Python'' []) = Some True"
  using relevance_without_question_words [OF empty_question_words,
      of "''I have experience with Python''"] empty_question_words
  by simp

end
